theory Spec2Isabelle
  imports Complex_Main
begin

section \<open>Data model\<close>

text \<open>
  The state vector of \<^verbatim>\<open>state.py\<close> and \<^verbatim>\<open>sensor.py\<close> is the four-element sequence
  \<^verbatim>\<open>[range, bearing, relative course, own speed]\<close>. The fields of the record are its
  positions: \<open>s_range\<close> is \<^verbatim>\<open>state[0]\<close>, \<open>s_bearing\<close> is \<^verbatim>\<open>state[1]\<close>, \<open>s_course\<close> is
  \<^verbatim>\<open>state[2]\<close> and \<open>s_speed\<close> is \<^verbatim>\<open>state[3]\<close>.

  A Python or numpy number is modelled by the real number it denotes. The transition
  \<^verbatim>\<open>update_state\<close> is given twice. In \<open>update_state\<close> every operation is computed exactly;
  that reading is faithful for what involves no rounding: the threading of the object and
  its counter, the speed field, and a course in \<open>[0, 360)\<close> under the zero control. In
  \<open>update_state_fl\<close> every arithmetic operation rounds as IEEE binary64 does and the
  library functions are parameters; that reading decides what depends on rounding.
\<close>

record state =
  s_range :: real
  s_bearing :: real
  s_course :: real
  s_speed :: real

text \<open>The exceptions the modelled code can raise.\<close>

datatype error =
    UnboundLocalError
  | ZeroDivisionError
  | ValueError string

section \<open>sensor.py: the binary-detection sensor (class Drone)\<close>

definition Drone_obs1_prob :: "state \<Rightarrow> real" where
  "Drone_obs1_prob x =
     (let rel_bearing = s_bearing x
      in if - 60 \<le> rel_bearing \<and> rel_bearing \<le> 60 then 0.9
         else if 120 \<le> rel_bearing \<and> rel_bearing \<le> 240 then 0.1
         else 0.5)"

text \<open>
  \<^verbatim>\<open>weight(self, hyp, o, xp)\<close>: the argument \<^verbatim>\<open>hyp\<close> is never read and is left out.
  The method has no raising path: every symbol other than 1 takes the \<^verbatim>\<open>else\<close> branch.
\<close>

definition Drone_weight :: "int \<Rightarrow> state \<Rightarrow> real" where
  "Drone_weight obs xp =
     (if obs = 1 then Drone_obs1_prob xp else 1 - Drone_obs1_prob xp)"

text \<open>
  \<^verbatim>\<open>gen_state(self, obs)\<close>. The random draws are arguments: \<open>b\<close> is the value returned
  by the \<^verbatim>\<open>random.randint\<close> of the branch taken, \<open>r\<close> the draw of \<^verbatim>\<open>randint(25,100)\<close> and
  \<open>c\<close> the draw of \<^verbatim>\<open>randint(0,11)\<close>. For a symbol other than 0 and 1 no branch binds
  \<^verbatim>\<open>bearing\<close>, and the test \<^verbatim>\<open>bearing < 0\<close> raises UnboundLocalError.
\<close>

definition Drone_gen_state :: "int \<Rightarrow> int \<Rightarrow> int \<Rightarrow> int \<Rightarrow> error + state" where
  "Drone_gen_state obs b r c =
     (if obs = 1 \<or> obs = 0 then
        (let bearing = b;
             bearing = (if bearing < 0 then bearing + 360 else bearing)
         in Inr \<lparr>s_range = of_int r, s_bearing = of_int bearing,
                 s_course = of_int (c * 30), s_speed = 1\<rparr>)
      else Inl UnboundLocalError)"

text \<open>The draws \<^verbatim>\<open>random.randint\<close> can return in \<^verbatim>\<open>Drone.gen_state\<close> (bounds inclusive).\<close>

definition Drone_draws :: "int \<Rightarrow> int \<Rightarrow> int \<Rightarrow> int \<Rightarrow> bool" where
  "Drone_draws obs b r c \<longleftrightarrow>
     (if obs = 1 then - 60 \<le> b \<and> b \<le> 60
      else if obs = 0 then 120 \<le> b \<and> b \<le> 240 else True)
     \<and> 25 \<le> r \<and> r \<le> 100 \<and> 0 \<le> c \<and> c \<le> 11"

section \<open>sensor.py: the quadrant bearing sensor (class Bearing)\<close>

text \<open>The constructor argument \<^verbatim>\<open>sensor_range\<close> (default 150) is the first argument.\<close>

definition default_sensor_range :: real where
  "default_sensor_range = 150"

definition Bearing_obs1 :: "real \<Rightarrow> state \<Rightarrow> real" where
  "Bearing_obs1 sensor_range st =
     (let rel_brg = s_bearing st;
          state_range = s_range st;
          rel_brg = (if rel_brg < 0 then rel_brg + 360 else rel_brg)
      in if ((60 < rel_brg \<and> rel_brg < 90) \<or> (270 < rel_brg \<and> rel_brg < 300))
            \<and> state_range < sensor_range / 2 then 1
         else if ((60 < rel_brg \<and> rel_brg < 90) \<or> (270 < rel_brg \<and> rel_brg < 300))
            \<and> state_range < sensor_range then 2 - 2 * state_range / sensor_range
         else 0.0001)"

definition Bearing_obs2 :: "real \<Rightarrow> state \<Rightarrow> real" where
  "Bearing_obs2 sensor_range st =
     (let rel_brg = s_course st;
          state_range = s_bearing st;
          rel_brg = (if rel_brg < 0 then rel_brg + 360 else rel_brg)
      in if ((90 \<le> rel_brg \<and> rel_brg < 120) \<or> (240 < rel_brg \<and> rel_brg \<le> 270))
            \<and> state_range < sensor_range / 2 then 1
         else if ((90 \<le> rel_brg \<and> rel_brg < 120) \<or> (240 < rel_brg \<and> rel_brg \<le> 270))
            \<and> state_range < sensor_range then 2 - 2 * state_range / sensor_range
         else 0.0001)"

definition Bearing_obs3 :: "real \<Rightarrow> state \<Rightarrow> real" where
  "Bearing_obs3 sensor_range st =
     (let rel_brg = s_bearing st;
          state_range = s_range st;
          rel_brg = (if rel_brg < 0 then rel_brg + 360 else rel_brg)
      in if (120 \<le> rel_brg \<and> rel_brg \<le> 240) \<and> state_range < sensor_range / 2 then 1
         else if (120 \<le> rel_brg \<and> rel_brg \<le> 240) \<and> state_range < sensor_range
           then 2 - 2 * state_range / sensor_range
         else 0.0001)"

definition Bearing_obs0 :: "real \<Rightarrow> state \<Rightarrow> real" where
  "Bearing_obs0 sensor_range st =
     (let rel_brg = s_bearing st;
          state_range = s_range st;
          rel_brg = (if rel_brg < 0 then rel_brg + 360 else rel_brg)
      in if rel_brg \<le> 60 \<or> rel_brg \<ge> 300 \<or> state_range \<ge> sensor_range then 1
         else if \<not> (Bearing_obs1 sensor_range st > 0)
               \<and> \<not> (Bearing_obs2 sensor_range st > 0)
               \<and> \<not> (Bearing_obs3 sensor_range st > 0) then 1
         else if (120 \<le> rel_brg \<and> rel_brg \<le> 240)
               \<and> (sensor_range / 2 < state_range \<and> state_range < sensor_range)
           then 2 * state_range / sensor_range - 1
         else if ((90 \<le> rel_brg \<and> rel_brg < 120) \<or> (240 < rel_brg \<and> rel_brg \<le> 270))
               \<and> (sensor_range / 2 < state_range \<and> state_range < sensor_range)
           then 2 * state_range / sensor_range - 1
         else if ((60 \<le> rel_brg \<and> rel_brg < 90) \<or> (270 < rel_brg \<and> rel_brg \<le> 300))
               \<and> (sensor_range / 2 < state_range \<and> state_range < sensor_range)
           then 2 * state_range / sensor_range - 1
         else 0.0001)"

text \<open>
  \<^verbatim>\<open>weight(self, hyp, o, xp)\<close>: a chain of four \<^verbatim>\<open>if o == k: return ...\<close>. For any other
  symbol the method falls off its end and returns Python's \<^verbatim>\<open>None\<close>, here \<open>None\<close>.
\<close>

definition Bearing_weight :: "real \<Rightarrow> int \<Rightarrow> state \<Rightarrow> real option" where
  "Bearing_weight sensor_range obs xp =
     (if obs = 0 then Some (Bearing_obs0 sensor_range xp)
      else if obs = 1 then Some (Bearing_obs1 sensor_range xp)
      else if obs = 2 then Some (Bearing_obs2 sensor_range xp)
      else if obs = 3 then Some (Bearing_obs3 sensor_range xp)
      else None)"

text \<open>
  \<^verbatim>\<open>gen_state(self, obs)\<close>. For the symbols 1 and 2 both \<^verbatim>\<open>randint\<close> calls are
  evaluated (draws \<open>b1\<close>, \<open>b2\<close>) and \<^verbatim>\<open>random.choice\<close> picks one of them (\<open>pick_second\<close>);
  for 0 and 3 only \<open>b1\<close> is drawn. \<open>r\<close> and \<open>c\<close> are the draws of \<^verbatim>\<open>randint(25,100)\<close>
  and \<^verbatim>\<open>randint(0,11)\<close>.
\<close>

definition Bearing_gen_state ::
  "int \<Rightarrow> int \<Rightarrow> int \<Rightarrow> bool \<Rightarrow> int \<Rightarrow> int \<Rightarrow> error + state" where
  "Bearing_gen_state obs b1 b2 pick_second r c =
     (if obs = 0 \<or> obs = 1 \<or> obs = 2 \<or> obs = 3 then
        (let bearing = (if obs = 0 then b1
                        else if obs = 1 then (if pick_second then b2 else b1)
                        else if obs = 2 then (if pick_second then b2 else b1)
                        else b1);
             bearing = (if bearing < 0 then bearing + 360 else bearing)
         in Inr \<lparr>s_range = of_int r, s_bearing = of_int bearing,
                 s_course = of_int (c * 30), s_speed = 1\<rparr>)
      else Inl UnboundLocalError)"

text \<open>The draws \<^verbatim>\<open>random.randint\<close> can return in \<^verbatim>\<open>Bearing.gen_state\<close>.\<close>

definition Bearing_draws :: "int \<Rightarrow> int \<Rightarrow> int \<Rightarrow> int \<Rightarrow> int \<Rightarrow> bool" where
  "Bearing_draws obs b1 b2 r c \<longleftrightarrow>
     (if obs = 0 then - 60 \<le> b1 \<and> b1 \<le> 60
      else if obs = 1 then 60 \<le> b1 \<and> b1 \<le> 90 \<and> 270 \<le> b2 \<and> b2 \<le> 300
      else if obs = 2 then 90 \<le> b1 \<and> b1 \<le> 120 \<and> 240 \<le> b2 \<and> b2 \<le> 270
      else if obs = 3 then 120 \<le> b1 \<and> b1 \<le> 240 else True)
     \<and> 25 \<le> r \<and> r \<le> 100 \<and> 0 \<le> c \<and> c \<le> 11"

section \<open>state.py: class RFState\<close>

record rfstate =
  prob :: real
  target_speed :: real
  target_movement :: string
  target_move_iter :: int
  target_state :: state
  sensor_state :: state

text \<open>\<^verbatim>\<open>init_target_state\<close>, with its three \<^verbatim>\<open>randint\<close> draws as arguments.\<close>

definition init_target_state :: "int \<Rightarrow> int \<Rightarrow> int \<Rightarrow> state" where
  "init_target_state r b c =
     \<lparr>s_range = of_int r, s_bearing = of_int b, s_course = of_int (c * 30), s_speed = 1\<rparr>"

definition init_draws :: "int \<Rightarrow> int \<Rightarrow> int \<Rightarrow> bool" where
  "init_draws r b c \<longleftrightarrow> 25 \<le> r \<and> r \<le> 100 \<and> 0 \<le> b \<and> b \<le> 359 \<and> 0 \<le> c \<and> c \<le> 11"

definition init_sensor_state :: state where
  "init_sensor_state = \<lparr>s_range = 0, s_bearing = 0, s_course = 0, s_speed = 0\<rparr>"

text \<open>
  \<^verbatim>\<open>RFState.__init__(prob=0.9, target_speed=None, target_movement=None)\<close>; the optional
  arguments are options, and the draws of \<^verbatim>\<open>init_target_state\<close> are passed on.
\<close>

definition RFState_init ::
  "real \<Rightarrow> real option \<Rightarrow> string option \<Rightarrow> int \<Rightarrow> int \<Rightarrow> int \<Rightarrow> rfstate" where
  "RFState_init p spd mv r b c =
     \<lparr>prob = p,
      target_speed = (case spd of Some v \<Rightarrow> v | None \<Rightarrow> 1),
      target_movement = (case mv of Some v \<Rightarrow> v | None \<Rightarrow> ''random''),
      target_move_iter = 0,
      target_state = init_target_state r b c,
      sensor_state = init_sensor_state\<rparr>"

text \<open>
  \<^verbatim>\<open>reward_func(self, state, action_idx=None, action_penalty=-.05)\<close>; \<open>None\<close> is the
  omitted action index.
\<close>

definition default_action_penalty :: real where
  "default_action_penalty = - 0.05"

definition reward_func :: "state \<Rightarrow> int option \<Rightarrow> real \<Rightarrow> real" where
  "reward_func st action_idx action_penalty =
     (let state_range = s_range st
      in case action_idx of
           Some a \<Rightarrow>
             (let action_penalty = (if 2 < a \<and> a < 5 then 0 else action_penalty)
              in if state_range \<ge> 150 then - 2 + action_penalty
                 else if state_range \<le> 10 then - 2 + action_penalty
                 else 0.1 + action_penalty)
         | None \<Rightarrow>
             (if state_range \<ge> 150 then - 2
              else if state_range \<le> 10 then - 200
              else 0.1))"

text \<open>
  \<^verbatim>\<open>circular_control(self, size)\<close> returns the two-element list
  \<^verbatim>\<open>[d_crs, self.target_speed]\<close> (here a pair) and the object with its counter advanced;
  \<open>sz\<close> is the argument \<^verbatim>\<open>size\<close>.
  Python's \<^verbatim>\<open>%\<close> raises ZeroDivisionError for \<^verbatim>\<open>size == 0\<close>, before the counter is touched.
\<close>

definition circular_control :: "rfstate \<Rightarrow> int \<Rightarrow> error + ((real \<times> real) \<times> rfstate)" where
  "circular_control self sz =
     (if sz = 0 then Inl ZeroDivisionError
      else
        (let d_crs = (if target_move_iter self mod sz = 0 then 30 else 0)
         in Inr ((d_crs, target_speed self),
                 self\<lparr>target_move_iter := target_move_iter self + 1\<rparr>)))"

text \<open>
  A sequence of \<open>n\<close> calls of \<^verbatim>\<open>circular_control(size)\<close> on the same object: the list of
  the values returned, each with the counter read after that call, and the object at the end.
\<close>

fun circular_calls ::
  "rfstate \<Rightarrow> int \<Rightarrow> nat \<Rightarrow> error + (((real \<times> real) \<times> int) list \<times> rfstate)" where
  "circular_calls self sz 0 = Inr ([], self)"
| "circular_calls self sz (Suc n) =
     (case circular_control self sz of
        Inl e \<Rightarrow> Inl e
      | Inr (out, self') \<Rightarrow>
          (case circular_calls self' sz n of
             Inl e \<Rightarrow> Inl e
           | Inr (outs, self'') \<Rightarrow> Inr ((out, target_move_iter self') # outs, self'')))"

text \<open>
  Python's \<^verbatim>\<open>x % 360\<close> computed exactly: the remainder of floor division, with the sign of
  the divisor.
\<close>

definition mod360 :: "real \<Rightarrow> real" where
  "mod360 x = x - 360 * of_int \<lfloor>x / 360\<rfloor>"

text \<open>numpy's \<^verbatim>\<open>radians\<close>, \<^verbatim>\<open>degrees\<close> and \<^verbatim>\<open>arctan2\<close>, computed exactly.\<close>

definition radians :: "real \<Rightarrow> real" where
  "radians d = d * pi / 180"

definition degrees :: "real \<Rightarrow> real" where
  "degrees a = a * 180 / pi"

definition arctan2 :: "real \<Rightarrow> real \<Rightarrow> real" where
  "arctan2 y x =
     (if 0 < x then arctan (y / x)
      else if x < 0 \<and> 0 \<le> y then arctan (y / x) + pi
      else if x < 0 then arctan (y / x) - pi
      else if 0 < y then pi / 2
      else if y < 0 then - (pi / 2)
      else 0)"

text \<open>
  Modelled from the spec: \<^verbatim>\<open>utils.pol2cart\<close> is imported by \<^verbatim>\<open>state.py\<close> but is not among
  the sources. The specification gives its contract:
  \<^verbatim>\<open>polar_to_cartesian(magnitude, angle_radians) -> (x, y)\<close>, the exact trigonometric
  conversion.
\<close>

definition pol2cart :: "real \<Rightarrow> real \<Rightarrow> real \<times> real" where
  "pol2cart rho phi = (rho * cos phi, rho * sin phi)"

text \<open>
  \<^verbatim>\<open>update_state(self, state, control, target_update=False)\<close>. The draw of
  \<^verbatim>\<open>random.random()\<close> is \<open>u\<close> and the draw of \<^verbatim>\<open>random.choice([-1, 1])\<close> is \<open>ch\<close>. The
  result is the tuple returned together with the object after the call.
\<close>

definition next_course ::
  "rfstate \<Rightarrow> bool \<Rightarrow> real \<Rightarrow> int \<Rightarrow> real \<Rightarrow> error + (real \<times> rfstate)" where
  "next_course self target_update u ch crs =
     (if target_update then
        (if target_movement self = ''circular'' then
           (case circular_control self 5 of
              Inl e \<Rightarrow> Inl e
            | Inr (out, self') \<Rightarrow> Inr (crs + fst out, self'))
         else
           (if u \<ge> prob self then Inr (crs + of_int ch * 30, self) else Inr (crs, self)))
      else
        (if u \<ge> prob self then Inr (crs + of_int ch * 30, self) else Inr (crs, self)))"

definition update_state ::
  "rfstate \<Rightarrow> state \<Rightarrow> real \<times> real \<Rightarrow> bool \<Rightarrow> real \<Rightarrow> int \<Rightarrow> error + (state \<times> rfstate)" where
  "update_state self st control target_update u ch =
     (let r = s_range st; theta = s_bearing st; crs = s_course st;
          spd = snd control;
          theta = mod360 theta;
          theta = theta - fst control;
          theta = mod360 theta;
          theta = (if theta < 0 then theta + 360 else theta);
          crs = mod360 crs;
          crs = crs - fst control;
          crs = (if crs < 0 then crs + 360 else crs);
          crs = mod360 crs;
          (x, y) = pol2cart r (radians theta)
      in case next_course self target_update u ch crs of
           Inl e \<Rightarrow> Inl e
         | Inr (crs, self') \<Rightarrow>
             (let crs = mod360 crs;
                  crs = (if crs < 0 then crs + 360 else crs);
                  (dx, dy) = pol2cart (target_speed self') (radians crs);
                  pos0 = x + dx - spd;
                  pos1 = y + dy;
                  r = sqrt (pos0\<^sup>2 + pos1\<^sup>2);
                  theta_rad = arctan2 pos1 pos0;
                  theta = degrees theta_rad;
                  theta = (if theta < 0 then theta + 360 else theta)
              in Inr (\<lparr>s_range = r, s_bearing = theta, s_course = crs, s_speed = spd\<rparr>,
                      self')))"

text \<open>The draws \<^verbatim>\<open>random.random()\<close> (in \<open>[0, 1)\<close>) and \<^verbatim>\<open>random.choice([-1, 1])\<close> can return.\<close>

definition update_draws :: "real \<Rightarrow> int \<Rightarrow> bool" where
  "update_draws u ch \<longleftrightarrow> 0 \<le> u \<and> u < 1 \<and> (ch = - 1 \<or> ch = 1)"

text \<open>\<^verbatim>\<open>update_sensor(self, control)\<close> returns nothing and overwrites \<^verbatim>\<open>self.sensor_state\<close>.\<close>

definition update_sensor :: "rfstate \<Rightarrow> real \<times> real \<Rightarrow> rfstate" where
  "update_sensor self control =
     (let r = s_range (sensor_state self); theta_deg = s_bearing (sensor_state self);
          crs = s_course (sensor_state self);
          spd = snd control;
          crs = mod360 crs;
          crs = crs + fst control;
          crs = (if crs < 0 then crs + 360 else crs);
          crs = mod360 crs;
          (x, y) = pol2cart r (radians theta_deg);
          (dx, dy) = pol2cart spd (radians crs);
          pos0 = x + dx;
          pos1 = y + dy;
          r = sqrt (pos0\<^sup>2 + pos1\<^sup>2);
          theta_deg = degrees (arctan2 pos1 pos0);
          theta_deg = (if theta_deg < 0 then theta_deg + 360 else theta_deg)
      in self\<lparr>sensor_state :=
                \<lparr>s_range = r, s_bearing = theta_deg, s_course = crs, s_speed = spd\<rparr>\<rparr>)"

text \<open>
  The driving loop of the fixed-point scenario: \<^verbatim>\<open>update_state\<close> called once per pair of
  draws, each call on the tuple the previous call returned. The result is the list of the
  tuples returned, in call order.
\<close>

fun update_calls ::
  "rfstate \<Rightarrow> state \<Rightarrow> real \<times> real \<Rightarrow> bool \<Rightarrow> (real \<times> int) list \<Rightarrow> error + state list" where
  "update_calls self st control target_update [] = Inr []"
| "update_calls self st control target_update ((u, ch) # ds) =
     (case update_state self st control target_update u ch of
        Inl e \<Rightarrow> Inl e
      | Inr (st', self') \<Rightarrow>
          (case update_calls self' st' control target_update ds of
             Inl e \<Rightarrow> Inl e
           | Inr sts \<Rightarrow> Inr (st' # sts)))"

section \<open>state.py: the target transition in double precision\<close>

text \<open>
  IEEE 754 binary64 with rounding to nearest, ties to even, on the reals: a nonzero \<open>x\<close>
  with \<open>2\<^sup>e \<le> |x| < 2\<^sup>e\<^sup>+\<^sup>1\<close> is rounded to a multiple of \<open>2\<^sup>e\<^sup>-\<^sup>5\<^sup>2\<close>, the exponent being
  held at \<open>-1022\<close> for subnormal numbers. Overflow to infinity, NaN and the sign of zero are
  not represented.
\<close>

definition round_half_even :: "real \<Rightarrow> int" where
  "round_half_even y =
     (let f = \<lfloor>y\<rfloor>; d = y - of_int f
      in if d < 1 / 2 then f
         else if 1 / 2 < d then f + 1
         else if even f then f else f + 1)"

definition double_round :: "real \<Rightarrow> real" where
  "double_round x =
     (if x = 0 then 0
      else
        (let e = max \<lfloor>log 2 \<bar>x\<bar>\<rfloor> (- 1022);
             ulp = 2 powr (of_int e - 52)
         in ulp * of_int (round_half_even (x / ulp))))"

text \<open>
  \<^verbatim>\<open>x % 360\<close> on doubles, as CPython's \<^verbatim>\<open>float_rem\<close> and numpy's remainder compute it: the C
  \<^verbatim>\<open>fmod\<close>, which is exact and has the sign of \<open>x\<close>; a nonzero negative remainder gets the
  divisor added, and that addition rounds. On integers of moderate size the result is
  Python's integer remainder.
\<close>

definition float_mod360 :: "real \<Rightarrow> real" where
  "float_mod360 x =
     (let q = x / 360;
          n = (if 0 \<le> q then \<lfloor>q\<rfloor> else \<lceil>q\<rceil>);
          m = x - 360 * of_int n
      in if m \<noteq> 0 then (if m < 0 then double_round (m + 360) else m) else 0)"

text \<open>
  The library functions \<^verbatim>\<open>update_state\<close> calls: \<^verbatim>\<open>np.radians\<close>, \<^verbatim>\<open>np.degrees\<close>,
  \<^verbatim>\<open>np.arctan2\<close>, \<^verbatim>\<open>np.sqrt\<close>, the power \<^verbatim>\<open>x**2\<close> and \<^verbatim>\<open>utils.pol2cart\<close> (not among
  the sources). On doubles they are whatever the platform computes, so they are parameters.
\<close>

record numlib =
  lib_radians :: "real \<Rightarrow> real"
  lib_degrees :: "real \<Rightarrow> real"
  lib_arctan2 :: "real \<Rightarrow> real \<Rightarrow> real"
  lib_sqrt :: "real \<Rightarrow> real"
  lib_pow2 :: "real \<Rightarrow> real"
  lib_pol2cart :: "real \<Rightarrow> real \<Rightarrow> real \<times> real"

text \<open>
  \<^verbatim>\<open>update_state\<close> in double precision: the same statements in the same order, each
  \<^verbatim>\<open>+\<close> and \<^verbatim>\<open>-\<close> rounded, each \<^verbatim>\<open>% 360\<close> as above. The inputs are taken to be doubles.
\<close>

definition next_course_fl ::
  "rfstate \<Rightarrow> bool \<Rightarrow> real \<Rightarrow> int \<Rightarrow> real \<Rightarrow> error + (real \<times> rfstate)" where
  "next_course_fl self target_update u ch crs =
     (if target_update then
        (if target_movement self = ''circular'' then
           (case circular_control self 5 of
              Inl e \<Rightarrow> Inl e
            | Inr (out, self') \<Rightarrow> Inr (double_round (crs + fst out), self'))
         else
           (if u \<ge> prob self then Inr (double_round (crs + of_int (ch * 30)), self)
            else Inr (crs, self)))
      else
        (if u \<ge> prob self then Inr (double_round (crs + of_int (ch * 30)), self)
         else Inr (crs, self)))"

definition update_state_fl ::
  "numlib \<Rightarrow> rfstate \<Rightarrow> state \<Rightarrow> real \<times> real \<Rightarrow> bool \<Rightarrow> real \<Rightarrow> int
     \<Rightarrow> error + (state \<times> rfstate)" where
  "update_state_fl lib self st control target_update u ch =
     (let r = s_range st; theta = s_bearing st; crs = s_course st;
          spd = snd control;
          theta = float_mod360 theta;
          theta = double_round (theta - fst control);
          theta = float_mod360 theta;
          theta = (if theta < 0 then double_round (theta + 360) else theta);
          crs = float_mod360 crs;
          crs = double_round (crs - fst control);
          crs = (if crs < 0 then double_round (crs + 360) else crs);
          crs = float_mod360 crs;
          (x, y) = lib_pol2cart lib r (lib_radians lib theta)
      in case next_course_fl self target_update u ch crs of
           Inl e \<Rightarrow> Inl e
         | Inr (crs, self') \<Rightarrow>
             (let crs = float_mod360 crs;
                  crs = (if crs < 0 then double_round (crs + 360) else crs);
                  (dx, dy) = lib_pol2cart lib (target_speed self') (lib_radians lib crs);
                  pos0 = double_round (double_round (x + dx) - spd);
                  pos1 = double_round (y + dy);
                  r = lib_sqrt lib (double_round (lib_pow2 lib pos0 + lib_pow2 lib pos1));
                  theta_rad = lib_arctan2 lib pos1 pos0;
                  theta = lib_degrees lib theta_rad;
                  theta = (if theta < 0 then double_round (theta + 360) else theta)
              in Inr (\<lparr>s_range = r, s_bearing = theta, s_course = crs, s_speed = spd\<rparr>,
                      self')))"

section \<open>state.py: the registry\<close>

text \<open>
  A name is a Python string of code points below 256, one \<open>char\<close> each. \<^verbatim>\<open>str.lower\<close>
  maps the capital letters of that range (A to Z, and U+00C0 to U+00DE without the
  multiplication sign U+00D7) to the code point 32 above, and nothing else.
\<close>

definition lower_char :: "char \<Rightarrow> char" where
  "lower_char ch =
     (let n = (of_char ch :: nat)
      in if (65 \<le> n \<and> n \<le> 90) \<or> (192 \<le> n \<and> n \<le> 222 \<and> n \<noteq> 215)
         then char_of (n + 32) else ch)"

definition lower :: "string \<Rightarrow> string" where
  "lower s = map lower_char s"

text \<open>The class objects the registry can hand out.\<close>

datatype state_class = RFState_class

definition AVAIL_STATES :: "(string \<times> state_class) list" where
  "AVAIL_STATES = [(''rfstate'', RFState_class)]"

text \<open>
  What \<^verbatim>\<open>'{}'.format(AVAIL_STATES.keys())\<close> prints for keys that need no escaping:
  \<^verbatim>\<open>dict_keys(['k1', 'k2'])\<close>.
\<close>

fun join_keys :: "string list \<Rightarrow> string" where
  "join_keys [] = []"
| "join_keys [k] = [CHR 0x27] @ k @ [CHR 0x27]"
| "join_keys (k # ks) = [CHR 0x27] @ k @ [CHR 0x27] @ '', '' @ join_keys ks"

definition dict_keys_str :: "string list \<Rightarrow> string" where
  "dict_keys_str ks = ''dict_keys(['' @ join_keys ks @ ''])''"

definition get_state :: "string \<Rightarrow> error + state_class" where
  "get_state state_name =
     (let state_name = lower state_name
      in case map_of AVAIL_STATES state_name of
           Some state_obj \<Rightarrow> Inr state_obj
         | None \<Rightarrow>
             Inl (ValueError (''Invalid action method name, '' @ state_name
                    @ '', entered. Must be in '' @ dict_keys_str (map fst AVAIL_STATES))))"

section \<open>Every call of the target transition returns\<close>

text \<open>
  \<^verbatim>\<open>update_state\<close> has no raising path, and the object it leaves differs from the one it
  got at most in the counter.
\<close>

lemma update_state_frame:
  "\<exists>st'. update_state self st control target_update u ch =
     Inr (st', if target_update \<and> target_movement self = ''circular''
               then self\<lparr>target_move_iter := target_move_iter self + 1\<rparr> else self)"
  by (simp add: update_state_def next_course_def circular_control_def Let_def split_beta)

section \<open>The transitions in exact arithmetic\<close>

text \<open>
  The lemmas of this section are about \<open>update_state\<close> and \<open>update_sensor\<close> with every
  operation computed exactly. They show what the wrap-around and conversion logic does when
  nothing rounds: angles end in \<open>[0, 360)\<close>, and the polar and Cartesian conversions are
  inverse to each other. They say nothing about the rounding of the doubles the code
  computes with.
\<close>

lemma mod360_range: "0 \<le> mod360 x \<and> mod360 x < 360"
proof -
  have "of_int \<lfloor>x / 360\<rfloor> \<le> x / 360" "x / 360 < of_int \<lfloor>x / 360\<rfloor> + 1"
    by linarith+
  then show ?thesis unfolding mod360_def by (simp add: field_simps)
qed

lemma mod360_id: "0 \<le> x \<Longrightarrow> x < 360 \<Longrightarrow> mod360 x = x"
proof -
  assume "0 \<le> x" "x < 360"
  then have "\<lfloor>x / 360\<rfloor> = 0" by (simp add: floor_eq_iff)
  then show ?thesis by (simp add: mod360_def)
qed

lemma arctan2_bounds: "- pi < arctan2 y x \<and> arctan2 y x \<le> pi"
proof -
  have b: "- (pi / 2) < arctan (y / x)" "arctan (y / x) < pi / 2"
    by (rule arctan_lbound, rule arctan_ubound)
  have p: "0 < pi" by simp
  consider "0 < x" | "x < 0" "0 \<le> y" | "x < 0" "y < 0" | "x = 0"
    by linarith
  then show ?thesis
  proof cases
    case 1
    then show ?thesis using b p by (simp add: arctan2_def)
  next
    case 2
    then have "y / x \<le> 0" by (simp add: divide_nonneg_neg)
    then have "arctan (y / x) \<le> 0" by (simp add: arctan_le_zero_iff)
    then show ?thesis using 2 b p by (simp add: arctan2_def)
  next
    case 3
    then have "0 < y / x" by (simp add: divide_neg_neg)
    then have "0 < arctan (y / x)" by (simp add: zero_less_arctan_iff)
    then show ?thesis using 3 b p by (simp add: arctan2_def)
  next
    case 4
    then have "arctan2 y x = pi / 2 \<or> arctan2 y x = - (pi / 2) \<or> arctan2 y x = 0"
      by (simp add: arctan2_def)
    then show ?thesis
    proof (elim disjE)
      assume "arctan2 y x = pi / 2"
      then show ?thesis using p by linarith
    next
      assume "arctan2 y x = - (pi / 2)"
      then show ?thesis using p by linarith
    next
      assume "arctan2 y x = 0"
      then show ?thesis using p by linarith
    qed
  qed
qed

lemma wrap_degrees_arctan2:
  "0 \<le> (if degrees (arctan2 y x) < 0 then degrees (arctan2 y x) + 360 else degrees (arctan2 y x))
   \<and> (if degrees (arctan2 y x) < 0 then degrees (arctan2 y x) + 360 else degrees (arctan2 y x)) < 360"
proof -
  have p: "0 < pi" by simp
  from arctan2_bounds[of y x] have "- pi < arctan2 y x" "arctan2 y x \<le> pi" by simp_all
  then have "- 180 < degrees (arctan2 y x)" "degrees (arctan2 y x) \<le> 180"
    using p by (simp_all add: degrees_def field_simps)
  then show ?thesis by simp
qed

lemma arctan2_polar:
  assumes r: "0 < r" and t: "- pi < t" "t \<le> pi"
  shows "arctan2 (r * sin t) (r * cos t) = t"
proof -
  have q: "(r * sin t) / (r * cos t) = tan t" using r by (simp add: tan_def)
  consider "- (pi / 2) < t" "t < pi / 2" | "pi / 2 < t" | "t < - (pi / 2)" | "t = pi / 2" | "t = - (pi / 2)"
    by linarith
  then show ?thesis
  proof cases
    case 1
    then have "0 < cos t" by (simp add: cos_gt_zero_pi)
    then have "0 < r * cos t" using r by simp
    then show ?thesis using 1 q by (simp add: arctan2_def arctan_tan)
  next
    case 2
    have "0 < cos (t - pi)" using 2 t by (intro cos_gt_zero_pi) linarith+
    then have "cos t < 0" by simp
    then have cneg: "r * cos t < 0" using r by (simp add: mult_pos_neg)
    have "0 \<le> sin t" using 2 t by (intro sin_ge_zero) linarith+
    then have sge: "0 \<le> r * sin t" using r by simp
    have "tan (t - pi) = tan t" using tan_periodic_pi[of "t - pi"] by simp
    moreover have "arctan (tan (t - pi)) = t - pi" using 2 t by (intro arctan_tan) linarith+
    ultimately have "arctan (tan t) = t - pi" by simp
    then show ?thesis using cneg sge q by (simp add: arctan2_def)
  next
    case 3
    have "0 < cos (t + pi)" using 3 t by (intro cos_gt_zero_pi) linarith+
    then have "cos t < 0" by simp
    then have cneg: "r * cos t < 0" using r by (simp add: mult_pos_neg)
    have "0 < sin (- t)" using 3 t by (intro sin_gt_zero) linarith+
    then have "sin t < 0" by simp
    then have sneg: "r * sin t < 0" using r by (simp add: mult_pos_neg)
    have "arctan (tan (t + pi)) = t + pi" using 3 t by (intro arctan_tan) linarith+
    then have "arctan (tan t) = t + pi" by simp
    then show ?thesis using cneg sneg q by (simp add: arctan2_def)
  next
    case 4
    show ?thesis unfolding 4 using r by (simp add: arctan2_def)
  next
    case 5
    show ?thesis unfolding 5 using r by (simp add: arctan2_def)
  qed
qed

lemma polar_range: "0 \<le> r \<Longrightarrow> sqrt ((r * cos t)\<^sup>2 + (r * sin t)\<^sup>2) = r"
proof -
  assume r: "0 \<le> r"
  have "(r * cos t)\<^sup>2 + (r * sin t)\<^sup>2 = r\<^sup>2 * ((cos t)\<^sup>2 + (sin t)\<^sup>2)"
    by (simp only: power_mult_distrib distrib_left)
  also have "\<dots> = r\<^sup>2" by simp
  finally show ?thesis using r by simp
qed

lemma degrees_radians: "degrees (radians d) = d"
  by (simp add: degrees_def radians_def)

lemma polar_bearing:
  assumes r: "0 < r" and d: "0 \<le> d" "d < 360"
  shows "(if degrees (arctan2 (r * sin (radians d)) (r * cos (radians d))) < 0
          then degrees (arctan2 (r * sin (radians d)) (r * cos (radians d))) + 360
          else degrees (arctan2 (r * sin (radians d)) (r * cos (radians d)))) = d"
proof -
  have p: "0 < pi" by simp
  have t0: "0 \<le> radians d" using d p by (simp add: radians_def)
  have t1: "radians d < 2 * pi" using d p by (simp add: radians_def)
  show ?thesis
  proof (cases "radians d \<le> pi")
    case True
    have "- pi < radians d" using t0 p by linarith
    then have "arctan2 (r * sin (radians d)) (r * cos (radians d)) = radians d"
      using r True by (intro arctan2_polar)
    then show ?thesis using d by (simp add: degrees_radians)
  next
    case False
    have a: "- pi < radians d - 2 * pi" "radians d - 2 * pi \<le> pi" using False t1 by linarith+
    have sc: "sin (radians d - 2 * pi) = sin (radians d)" "cos (radians d - 2 * pi) = cos (radians d)"
      using sin_periodic[of "radians d - 2 * pi"] cos_periodic[of "radians d - 2 * pi"] by simp_all
    have "arctan2 (r * sin (radians d - 2 * pi)) (r * cos (radians d - 2 * pi)) = radians d - 2 * pi"
      using r a by (intro arctan2_polar)
    then have e: "arctan2 (r * sin (radians d)) (r * cos (radians d)) = radians d - 2 * pi"
      by (simp only: sc)
    have "degrees (radians d - 2 * pi) = d - 360"
      by (simp add: degrees_def radians_def field_simps)
    then show ?thesis using d e by simp
  qed
qed

lemma next_course_keep:
  assumes "prob self = 1" "u < 1" "\<not> target_update \<or> target_movement self \<noteq> ''circular''"
  shows "next_course self target_update u ch crs = Inr (crs, self)"
  using assms by (auto simp: next_course_def)

lemma update_state_zero_control:
  assumes m: "prob self = 1" "target_speed self = 0"
    and tu: "\<not> target_update \<or> target_movement self \<noteq> ''circular''"
    and u: "u < 1"
    and st: "0 < s_range st" "0 \<le> s_bearing st" "s_bearing st < 360"
            "0 \<le> s_course st" "s_course st < 360"
  shows "update_state self st (0, 0) target_update u ch = Inr (st\<lparr>s_speed := 0\<rparr>, self)"
proof -
  have b: "mod360 (s_bearing st) = s_bearing st" using st by (simp add: mod360_id)
  have c: "mod360 (s_course st) = s_course st" using st by (simp add: mod360_id)
  have n: "next_course self target_update u ch (s_course st) = Inr (s_course st, self)"
    using m(1) u tu by (rule next_course_keep)
  have rr: "sqrt ((s_range st * cos (radians (s_bearing st)))\<^sup>2
              + (s_range st * sin (radians (s_bearing st)))\<^sup>2) = s_range st"
    using st by (simp add: polar_range)
  note pb = polar_bearing[OF st(1) st(2) st(3)]
  have pb1: "degrees (arctan2 (s_range st * sin (radians (s_bearing st)))
                (s_range st * cos (radians (s_bearing st)))) < 0 \<Longrightarrow>
             degrees (arctan2 (s_range st * sin (radians (s_bearing st)))
                (s_range st * cos (radians (s_bearing st)))) + 360 = s_bearing st"
    using pb by (simp split: if_splits)
  have pb2: "\<not> degrees (arctan2 (s_range st * sin (radians (s_bearing st)))
                (s_range st * cos (radians (s_bearing st)))) < 0 \<Longrightarrow>
             degrees (arctan2 (s_range st * sin (radians (s_bearing st)))
                (s_range st * cos (radians (s_bearing st)))) = s_bearing st"
    using pb by (simp split: if_splits)
  have "update_state self st (0, 0) target_update u ch =
          Inr (\<lparr>s_range = s_range st, s_bearing = s_bearing st, s_course = s_course st,
                 s_speed = 0\<rparr>, self)"
    unfolding update_state_def
    using st(2) st(4)
    by (simp add: Let_def b c n m pol2cart_def rr pb1 pb2)
  then show ?thesis by simp
qed

lemma mod360_ge: "0 \<le> mod360 x" and mod360_lt: "mod360 x < 360" and mod360_not_neg: "\<not> mod360 x < 0"
  using mod360_range[of x] by simp_all

lemma degrees_arctan2_lo: "0 \<le> degrees (arctan2 y x) + 360"
  and degrees_arctan2_hi: "degrees (arctan2 y x) < 360"
  using wrap_degrees_arctan2[of y x] by (simp_all split: if_splits)

lemma update_state_angles:
  "update_state self st control target_update u ch = Inr (st', self') \<Longrightarrow>
     0 \<le> s_bearing st' \<and> s_bearing st' < 360 \<and> 0 \<le> s_course st' \<and> s_course st' < 360"
  unfolding update_state_def Let_def split_beta
  by (auto simp: mod360_ge mod360_lt mod360_not_neg degrees_arctan2_lo degrees_arctan2_hi
        split: sum.splits if_splits)

lemma update_sensor_angles:
  "0 \<le> s_bearing (sensor_state (update_sensor self control)) \<and>
   s_bearing (sensor_state (update_sensor self control)) < 360 \<and>
   0 \<le> s_course (sensor_state (update_sensor self control)) \<and>
   s_course (sensor_state (update_sensor self control)) < 360"
  unfolding update_sensor_def Let_def split_beta
  by (auto simp: mod360_ge mod360_lt mod360_not_neg degrees_arctan2_lo degrees_arctan2_hi)

text \<open>In exact arithmetic both transitions leave bearing and course in \<open>[0, 360)\<close>.\<close>

lemma angles_normalized_exact:
  "(\<exists>st' self'.
      update_state self st control target_update u ch = Inr (st', self')
      \<and> 0 \<le> s_bearing st' \<and> s_bearing st' < 360
      \<and> 0 \<le> s_course st' \<and> s_course st' < 360)
   \<and> 0 \<le> s_bearing (sensor_state (update_sensor self control))
   \<and> s_bearing (sensor_state (update_sensor self control)) < 360
   \<and> 0 \<le> s_course (sensor_state (update_sensor self control))
   \<and> s_course (sensor_state (update_sensor self control)) < 360"
proof -
  obtain st' self' where r: "update_state self st control target_update u ch = Inr (st', self')"
    using update_state_frame by blast
  from update_state_angles[OF r] r
  have "\<exists>st' self'.
      update_state self st control target_update u ch = Inr (st', self')
      \<and> 0 \<le> s_bearing st' \<and> s_bearing st' < 360
      \<and> 0 \<le> s_course st' \<and> s_course st' < 360" by blast
  then show ?thesis using update_sensor_angles[of self control] by blast
qed

lemma update_calls_zero_control:
  assumes m: "prob self = 1" "target_speed self = 0"
    and tu: "\<not> target_update \<or> target_movement self \<noteq> ''circular''"
  shows "list_all (\<lambda>d. update_draws (fst d) (snd d)) ds \<Longrightarrow>
         0 < s_range st \<Longrightarrow> 0 \<le> s_bearing st \<Longrightarrow> s_bearing st < 360 \<Longrightarrow>
         0 \<le> s_course st \<Longrightarrow> s_course st < 360 \<Longrightarrow>
         update_calls self st (0, 0) target_update ds
           = Inr (replicate (length ds) (st\<lparr>s_speed := 0\<rparr>))"
proof (induction ds arbitrary: st)
  case Nil
  show ?case by simp
next
  case (Cons d ds)
  obtain u ch where d: "d = (u, ch)" by (cases d)
  from Cons.prems(1) d have u: "u < 1" by (simp add: update_draws_def)
  have step: "update_state self st (0, 0) target_update u ch = Inr (st\<lparr>s_speed := 0\<rparr>, self)"
    using m tu u Cons.prems(2-6) by (rule update_state_zero_control)
  have rest: "update_calls self (st\<lparr>s_speed := 0\<rparr>) (0, 0) target_update ds
                = Inr (replicate (length ds) (st\<lparr>s_speed := 0\<rparr>))"
    using Cons.IH[of "st\<lparr>s_speed := 0\<rparr>"] Cons.prems by simp
  show ?case by (simp add: d step rest)
qed

text \<open>
  In exact arithmetic, on an object constructed with \<^verbatim>\<open>RFState(prob=1.0, target_speed=0)\<close>,
  any chain of calls with the zero control started on \<^verbatim>\<open>target_state\<close> returns the initial
  range, bearing and course with speed 0, at every call and for every draw.
\<close>

lemma RFState_init_zero_control:
  assumes i: "init_draws r b c"
    and ds: "list_all (\<lambda>d. update_draws (fst d) (snd d)) ds"
  shows "update_calls (RFState_init 1 (Some 0) mv r b c)
           (target_state (RFState_init 1 (Some 0) mv r b c)) (0, 0) False ds
         = Inr (replicate (length ds)
                  \<lparr>s_range = of_int r, s_bearing = of_int b, s_course = of_int (c * 30),
                     s_speed = 0\<rparr>)"
proof -
  from i have b: "25 \<le> r" "0 \<le> b" "b \<le> 359" "0 \<le> c" "c \<le> 11"
    by (simp_all add: init_draws_def)
  have t: "target_state (RFState_init 1 (Some 0) mv r b c) = init_target_state r b c"
    by (simp add: RFState_init_def)
  have r0: "(0 :: real) < of_int r" using b by linarith
  have b0: "(0 :: real) \<le> of_int b" "(of_int b :: real) < 360" using b by linarith+
  have c0: "(0 :: real) \<le> of_int (c * 30)" "(of_int (c * 30) :: real) < 360"
    using b by linarith+
  have "update_calls (RFState_init 1 (Some 0) mv r b c) (init_target_state r b c) (0, 0) False ds
          = Inr (replicate (length ds) ((init_target_state r b c)\<lparr>s_speed := 0\<rparr>))"
    using ds r0 b0 c0
    by (intro update_calls_zero_control) (simp_all add: RFState_init_def init_target_state_def)
  then show ?thesis by (simp add: t init_target_state_def)
qed

section \<open>The reward\<close>

text \<open>
  Claim C1, as amended. With an action index given, \<^verbatim>\<open>reward_func\<close> adds to the range term
  (\<open>-2\<close> at range 150 or more and at range 10 or less, \<open>0.1\<close> between) the penalty 0 when
  the index is 3 or 4, the two integers the guard \<^verbatim>\<open>2 < action_idx < 5\<close> admits, and the
  configured penalty for every other index.
\<close>

theorem reward_func_zero_penalty_3_4:
  "reward_func st (Some a) p =
     (if s_range st \<ge> 150 \<or> s_range st \<le> 10 then - 2 else 0.1)
     + (if a = 3 \<or> a = 4 then 0 else p)"
  by (auto simp: reward_func_def Let_def)

text \<open>
  Claim C1, instances: at the state \<open>(50, 0, 0, 1)\<close> with the default penalty the indices 3
  and 4 give \<open>0.1\<close> and the index 5 gives \<open>0.1 - 0.05\<close>.
\<close>

theorem reward_func_zero_penalty_3_4_witness:
  "reward_func \<lparr>s_range = 50, s_bearing = 0, s_course = 0, s_speed = 1\<rparr> (Some 3)
       default_action_penalty = 0.1
   \<and> reward_func \<lparr>s_range = 50, s_bearing = 0, s_course = 0, s_speed = 1\<rparr> (Some 4)
       default_action_penalty = 0.1
   \<and> reward_func \<lparr>s_range = 50, s_bearing = 0, s_course = 0, s_speed = 1\<rparr> (Some 5)
       default_action_penalty = 0.1 - 0.05"
  using reward_func_zero_penalty_3_4
          [of "\<lparr>s_range = 50, s_bearing = 0, s_course = 0, s_speed = 1\<rparr>" 3 default_action_penalty]
        reward_func_zero_penalty_3_4
          [of "\<lparr>s_range = 50, s_bearing = 0, s_course = 0, s_speed = 1\<rparr>" 4 default_action_penalty]
        reward_func_zero_penalty_3_4
          [of "\<lparr>s_range = 50, s_bearing = 0, s_course = 0, s_speed = 1\<rparr>" 5 default_action_penalty]
  by (simp add: default_action_penalty_def)

text \<open>
  Claim C1 as stated fails at the action index 4: it is not 3, and yet the configured
  penalty is not applied, the reward being \<open>0.1\<close> and not \<open>0.1 - 0.05\<close>.
\<close>

theorem reward_func_index_4_counterexample:
  "reward_func \<lparr>s_range = 50, s_bearing = 0, s_course = 0, s_speed = 1\<rparr> (Some 4)
       default_action_penalty = 0.1
   \<and> reward_func \<lparr>s_range = 50, s_bearing = 0, s_course = 0, s_speed = 1\<rparr> (Some 4)
       default_action_penalty \<noteq> 0.1 + default_action_penalty"
  by (simp add: reward_func_def default_action_penalty_def)

section \<open>The binary-detection sensor\<close>

text \<open>
  Claim C10. For the binary-detection sensor and every state, the likelihoods of the symbols
  1 and 0 add up to 1, and the likelihood of 1 is \<open>0.9\<close> for a bearing in \<open>[-60, 60]\<close>,
  \<open>0.1\<close> for a bearing in \<open>[120, 240]\<close> and \<open>0.5\<close> for any other bearing.
\<close>

theorem Drone_weight_sum_one:
  "Drone_weight 1 s + Drone_weight 0 s = 1
   \<and> (- 60 \<le> s_bearing s \<and> s_bearing s \<le> 60 \<longrightarrow> Drone_weight 1 s = 0.9)
   \<and> (120 \<le> s_bearing s \<and> s_bearing s \<le> 240 \<longrightarrow> Drone_weight 1 s = 0.1)
   \<and> (\<not> (- 60 \<le> s_bearing s \<and> s_bearing s \<le> 60)
        \<and> \<not> (120 \<le> s_bearing s \<and> s_bearing s \<le> 240) \<longrightarrow> Drone_weight 1 s = 0.5)"
  by (simp add: Drone_weight_def Drone_obs1_prob_def Let_def)

text \<open>
  Claim C10, instances: a bearing of 30 (front cone), of 180 (rear cone) and of 90 (flank).
\<close>

theorem Drone_weight_sum_one_witness:
  "((- 60 :: real) \<le> 30 \<and> (30 :: real) \<le> 60)
   \<and> Drone_weight 1 \<lparr>s_range = 50, s_bearing = 30, s_course = 0, s_speed = 1\<rparr> = 0.9
   \<and> Drone_weight 0 \<lparr>s_range = 50, s_bearing = 30, s_course = 0, s_speed = 1\<rparr> = 0.1
   \<and> ((120 :: real) \<le> 180 \<and> (180 :: real) \<le> 240)
   \<and> Drone_weight 1 \<lparr>s_range = 50, s_bearing = 180, s_course = 0, s_speed = 1\<rparr> = 0.1
   \<and> Drone_weight 0 \<lparr>s_range = 50, s_bearing = 180, s_course = 0, s_speed = 1\<rparr> = 0.9
   \<and> (\<not> ((- 60 :: real) \<le> 90 \<and> (90 :: real) \<le> 60) \<and> \<not> ((120 :: real) \<le> 90 \<and> (90 :: real) \<le> 240))
   \<and> Drone_weight 1 \<lparr>s_range = 50, s_bearing = 90, s_course = 0, s_speed = 1\<rparr> = 0.5
   \<and> Drone_weight 0 \<lparr>s_range = 50, s_bearing = 90, s_course = 0, s_speed = 1\<rparr> = 0.5"
  using Drone_weight_sum_one [of "\<lparr>s_range = 50, s_bearing = 30, s_course = 0, s_speed = 1\<rparr>"]
        Drone_weight_sum_one [of "\<lparr>s_range = 50, s_bearing = 180, s_course = 0, s_speed = 1\<rparr>"]
        Drone_weight_sum_one [of "\<lparr>s_range = 50, s_bearing = 90, s_course = 0, s_speed = 1\<rparr>"]
  by simp

section \<open>The target transition\<close>

text \<open>
  Claim C3, as amended. A call of \<^verbatim>\<open>update_state\<close> always returns a tuple and leaves
  \<^verbatim>\<open>target_state\<close>, \<^verbatim>\<open>sensor_state\<close> and the configuration of the object as they were, for
  every state, control and draw. The counter \<^verbatim>\<open>target_move_iter\<close> is left as it was
  except in a call with \<^verbatim>\<open>target_update\<close> true on an object whose movement is
  \<^verbatim>\<open>'circular'\<close>: that call goes through \<^verbatim>\<open>circular_control(5)\<close> and advances it by 1.
\<close>

theorem update_state_frame_counter:
  "\<exists>st' self'.
     update_state self st control target_update u ch = Inr (st', self')
     \<and> target_state self' = target_state self
     \<and> sensor_state self' = sensor_state self
     \<and> prob self' = prob self
     \<and> target_speed self' = target_speed self
     \<and> target_movement self' = target_movement self
     \<and> target_move_iter self' =
         (if target_update \<and> target_movement self = ''circular''
          then target_move_iter self + 1 else target_move_iter self)"
proof -
  obtain st' where
    "update_state self st control target_update u ch =
       Inr (st', if target_update \<and> target_movement self = ''circular''
                 then self\<lparr>target_move_iter := target_move_iter self + 1\<rparr> else self)"
    using update_state_frame by blast
  then show ?thesis by auto
qed

text \<open>
  Claim C3 as stated fails on an object with circular movement: one call with
  \<^verbatim>\<open>target_update\<close> true takes the counter of a freshly constructed object from 0 to 1.
\<close>

theorem update_state_counter_counterexample:
  "target_move_iter (RFState_init (9 / 10) None (Some ''circular'') 50 0 0) = 0
   \<and> map_sum id (target_move_iter \<circ> snd)
        (update_state (RFState_init (9 / 10) None (Some ''circular'') 50 0 0)
           (target_state (RFState_init (9 / 10) None (Some ''circular'') 50 0 0))
           (0, 0) True 0 1) = Inr 1"
proof -
  obtain st' where
    "update_state (RFState_init (9 / 10) None (Some ''circular'') 50 0 0)
       (target_state (RFState_init (9 / 10) None (Some ''circular'') 50 0 0)) (0, 0) True 0 1 =
       Inr (st', if True \<and> target_movement (RFState_init (9 / 10) None (Some ''circular'') 50 0 0)
                      = ''circular''
                 then (RFState_init (9 / 10) None (Some ''circular'') 50 0 0)
                        \<lparr>target_move_iter :=
                           target_move_iter (RFState_init (9 / 10) None (Some ''circular'') 50 0 0) + 1\<rparr>
                 else RFState_init (9 / 10) None (Some ''circular'') 50 0 0)"
    using update_state_frame by blast
  then show ?thesis by (simp add: RFState_init_def)
qed







section \<open>The target transition in double precision\<close>

text \<open>Rounding: exact cases, the double nearest to \<open>0.1\<close>, and the sums that round up to 360.\<close>

lemma round_half_even_of_int: "round_half_even (of_int m) = m"
  by (simp add: round_half_even_def)

lemma double_round_at:
  assumes "x \<noteq> 0" and "2 powr of_int e \<le> \<bar>x\<bar>" and "\<bar>x\<bar> < 2 powr (of_int e + 1)"
    and "- 1022 \<le> e"
  shows "double_round x =
           2 powr (of_int e - 52) * of_int (round_half_even (x / 2 powr (of_int e - 52)))"
proof -
  have "0 < \<bar>x\<bar>" using assms(1) by simp
  then have "\<lfloor>log 2 \<bar>x\<bar>\<rfloor> = e"
    using assms(2,3) by (simp add: floor_log_eq_powr_iff)
  then show ?thesis using assms(1,4) by (simp add: double_round_def Let_def max_def)
qed

lemma double_round_exact:
  assumes "x \<noteq> 0" and "2 powr of_int e \<le> \<bar>x\<bar>" and "\<bar>x\<bar> < 2 powr (of_int e + 1)"
    and "- 1022 \<le> e" and "x = 2 powr (of_int e - 52) * of_int m"
  shows "double_round x = x"
proof -
  have p: "(2 :: real) powr (of_int e - 52) \<noteq> 0" by simp
  have "x / 2 powr (of_int e - 52) = of_int m"
    using assms(5) p by (simp add: field_simps)
  then show ?thesis
    using double_round_at[OF assms(1-4)] assms(5) by (simp add: round_half_even_of_int)
qed

lemma round_half_even_just_below:
  assumes "- (1 / 2) < a" and "a < 0"
  shows "round_half_even (a + of_int k) = k"
proof -
  have f: "\<lfloor>a + of_int k\<rfloor> = k - 1"
    by (rule floor_unique) (use assms in simp_all)
  have "a + of_int k - of_int (k - 1) = a + 1" by simp
  then show ?thesis
    unfolding round_half_even_def Let_def f using assms by simp
qed

lemma double_round_below_360:
  assumes "- (1 / 2 ^ 45) < t" and "t < 0"
  shows "double_round (t + 360) = 360"
proof -
  have t: "- (1 / 2 ^ 45) < t" "t < 0" using assms by simp_all
  have s: "(1 / 2 ^ 45 :: real) < 1" by simp
  have x: "t + 360 \<noteq> 0" "2 powr of_int 8 \<le> \<bar>t + 360\<bar>" "\<bar>t + 360\<bar> < 2 powr (of_int 8 + 1)"
    using t s by simp_all
  have u: "2 powr (of_int 8 - 52) = (1 / 2 ^ 44 :: real)"
    by (simp add: powr_neg_numeral)
  have q: "(t + 360) / (1 / 2 ^ 44) = t * 2 ^ 44 + of_int (360 * 2 ^ 44)"
    by (simp add: field_simps)
  have lo: "- (1 / 2) < t * 2 ^ 44" using t(1) by (simp add: field_simps)
  have hi: "t * 2 ^ 44 < 0" using t(2) by (simp add: field_simps)
  have "round_half_even (t * 2 ^ 44 + of_int (360 * 2 ^ 44)) = 360 * 2 ^ 44"
    using lo hi by (rule round_half_even_just_below)
  then have r: "round_half_even ((t + 360) / (1 / 2 ^ 44)) = 360 * 2 ^ 44"
    by (simp only: q)
  have "double_round (t + 360) =
          2 powr (of_int 8 - 52) * of_int (round_half_even ((t + 360) / 2 powr (of_int 8 - 52)))"
    by (rule double_round_at[OF x]) simp
  also have "\<dots> = (1 / 2 ^ 44) * of_int (360 * 2 ^ 44)"
    by (simp only: u r)
  also have "\<dots> = 360" by simp
  finally show ?thesis .
qed

lemma float_mod360_id: "0 \<le> x \<Longrightarrow> x < 360 \<Longrightarrow> float_mod360 x = x"
proof -
  assume a: "0 \<le> x" "x < 360"
  then have "\<lfloor>x / 360\<rfloor> = 0" by (simp add: floor_eq_iff)
  then show ?thesis using a by (simp add: float_mod360_def Let_def)
qed

lemma float_mod360_neg: "- 360 < x \<Longrightarrow> x < 0 \<Longrightarrow> float_mod360 x = double_round (x + 360)"
proof -
  assume a: "- 360 < x" "x < 0"
  then have "\<lceil>x / 360\<rceil> = 0" by (simp add: ceiling_eq_iff)
  then show ?thesis using a by (simp add: float_mod360_def Let_def)
qed

lemma double_round_tenth: "double_round (1 / 10) = 3602879701896397 / 2 ^ 55"
proof -
  have x: "(1 / 10 :: real) \<noteq> 0" "2 powr of_int (- 4) \<le> \<bar>1 / 10 :: real\<bar>"
          "\<bar>1 / 10 :: real\<bar> < 2 powr (of_int (- 4) + 1)" "- 1022 \<le> (- 4 :: int)"
    by (simp_all add: powr_neg_numeral)
  have u: "2 powr (of_int (- 4) - 52) = (1 / 2 ^ 56 :: real)"
    by (simp add: powr_neg_numeral)
  have "\<lfloor>(1 / 10) / (1 / 2 ^ 56) :: real\<rfloor> = 7205759403792793"
    by (rule floor_unique) simp_all
  then have r: "round_half_even ((1 / 10) / (1 / 2 ^ 56)) = 7205759403792794"
    unfolding round_half_even_def Let_def by simp
  have "double_round (1 / 10) =
          2 powr (of_int (- 4) - 52) * of_int (round_half_even ((1 / 10) / 2 powr (of_int (- 4) - 52)))"
    by (rule double_round_at[OF x])
  also have "\<dots> = (1 / 2 ^ 56) * of_int 7205759403792794"
    by (simp only: u r)
  also have "\<dots> = 3602879701896397 / 2 ^ 55" by simp
  finally show ?thesis .
qed

text \<open>
  The course and speed returned by a call with the zero control that does not go through
  \<^verbatim>\<open>circular_control\<close>, on a course that is a double in \<open>[0, 360)\<close>, whatever the library
  functions return.
\<close>

lemma update_state_fl_straight:
  assumes tu: "\<not> target_update \<or> target_movement self \<noteq> ''circular''"
    and c: "0 \<le> s_course st" "s_course st < 360" "double_round (s_course st) = s_course st"
  shows "\<exists>st'. update_state_fl lib self st (0, 0) target_update u ch = Inr (st', self)
           \<and> s_speed st' = 0
           \<and> s_course st' =
               (if u \<ge> prob self
                then (let c' = float_mod360 (double_round (s_course st + of_int (ch * 30)))
                      in if c' < 0 then double_round (c' + 360) else c')
                else s_course st)"
proof -
  have n: "next_course_fl self target_update u ch (s_course st) =
             Inr (if u \<ge> prob self then double_round (s_course st + of_int (ch * 30))
                  else s_course st, self)"
    using tu by (auto simp: next_course_fl_def)
  have m: "float_mod360 (s_course st) = s_course st"
    using c by (simp add: float_mod360_id)
  have ng: "\<not> s_course st < 0" using c by simp
  show ?thesis
    unfolding update_state_fl_def
    by (simp add: Let_def split_beta m c(3) ng n)
qed

lemma update_state_fl_zero_control:
  assumes "u < prob self"
    and "\<not> target_update \<or> target_movement self \<noteq> ''circular''"
    and "0 \<le> s_course st" and "s_course st < 360" and "double_round (s_course st) = s_course st"
  shows "\<exists>st'. update_state_fl lib self st (0, 0) target_update u ch = Inr (st', self)
           \<and> s_course st' = s_course st \<and> s_speed st' = 0"
  using update_state_fl_straight[OF assms(2-5), where lib = lib and u = u and ch = ch] assms(1)
  by auto

text \<open>The double just below 30, its difference from 30, and the remainder of that difference.\<close>

lemma double_30_below: "double_round (30 - 1 / 2 ^ 48) = 30 - 1 / 2 ^ 48"
proof (rule double_round_exact[where e = 4 and m = "30 * 2 ^ 48 - 1"])
  show "(30 - 1 / 2 ^ 48 :: real) = 2 powr (of_int 4 - 52) * of_int (30 * 2 ^ 48 - 1)"
    by (simp add: powr_neg_numeral field_simps)
qed simp_all

lemma double_tiny_neg: "double_round (- (1 / 2 ^ 48)) = - (1 / 2 ^ 48)"
proof (rule double_round_exact[where e = "- 48" and m = "- (2 ^ 52)"])
  show "(- (1 / 2 ^ 48) :: real) = 2 powr (of_int (- 48) - 52) * of_int (- (2 ^ 52))"
    by (simp add: powr_neg_numeral field_simps)
qed (simp_all add: powr_neg_numeral)

lemma float_mod360_tiny_neg: "float_mod360 (- (1 / 2 ^ 48)) = 360"
proof -
  have "float_mod360 (- (1 / 2 ^ 48)) = double_round (- (1 / 2 ^ 48) + 360)"
    by (rule float_mod360_neg) simp_all
  also have "\<dots> = 360"
    by (rule double_round_below_360) simp_all
  finally show ?thesis .
qed

text \<open>
  Claim C6, evaluated where it fails. In double precision, \<^verbatim>\<open>update_state\<close> on the state
  \<open>(50, 0, 29.999999999999996, 1)\<close>, whose course is the double \<open>30 - 2\<^sup>-\<^sup>4\<^sup>8\<close> just below 30,
  with the control \<open>(0, 0)\<close> on an object with \<^verbatim>\<open>prob = 0.5\<close>, when \<^verbatim>\<open>random.random()\<close>
  returns \<open>0.75\<close> and \<^verbatim>\<open>random.choice\<close> returns \<open>-1\<close>, returns the course \<open>360.0\<close>, which is
  not in \<open>[0, 360)\<close>: \<^verbatim>\<open>crs += -30\<close> leaves \<open>-2\<^sup>-\<^sup>4\<^sup>8\<close>, and \<^verbatim>\<open>crs %= 360\<close> adds 360 to that
  remainder, which rounds to \<open>360.0\<close>; the test \<^verbatim>\<open>crs < 0\<close> that follows does not fire. This
  holds whatever the library functions return.
\<close>

theorem update_state_course_rounds_to_360:
  "update_draws (3 / 4) (- 1)
   \<and> double_round (30 - 1 / 2 ^ 48) = 30 - 1 / 2 ^ 48
   \<and> map_sum id (s_course \<circ> fst)
        (update_state_fl lib (RFState_init (1 / 2) None None 50 0 0)
           \<lparr>s_range = 50, s_bearing = 0, s_course = 30 - 1 / 2 ^ 48, s_speed = 1\<rparr>
           (0, 0) False (3 / 4) (- 1)) = Inr 360"
proof -
  define st where "st = \<lparr>s_range = 50, s_bearing = 0, s_course = 30 - 1 / 2 ^ 48, s_speed = (1 :: real)\<rparr>"
  define M where "M = RFState_init (1 / 2) None None 50 0 0"
  have c: "s_course st = 30 - 1 / 2 ^ 48" by (simp add: st_def)
  have p: "prob M = 1 / 2" by (simp add: M_def RFState_init_def)
  have h: "\<not> False \<or> target_movement M \<noteq> ''circular''" by simp
  have r: "0 \<le> s_course st" "s_course st < 360" "double_round (s_course st) = s_course st"
    unfolding c by (simp, simp, rule double_30_below)
  obtain st' where
    s: "update_state_fl lib M st (0, 0) False (3 / 4) (- 1) = Inr (st', M)"
    and k: "s_course st' =
              (if 3 / 4 \<ge> prob M
               then (let c' = float_mod360 (double_round (s_course st + of_int (- 1 * 30)))
                     in if c' < 0 then double_round (c' + 360) else c')
               else s_course st)"
    using update_state_fl_straight[OF h r, where lib = lib and u = "3 / 4" and ch = "- 1"] by blast
  have a: "s_course st + of_int (- 1 * 30) = - (1 / 2 ^ 48)" unfolding c by simp
  have "s_course st' = 360"
    unfolding k a p double_tiny_neg float_mod360_tiny_neg Let_def by simp
  then have "map_sum id (s_course \<circ> fst) (update_state_fl lib M st (0, 0) False (3 / 4) (- 1)) = Inr 360"
    by (simp add: s)
  moreover have "update_draws (3 / 4) (- 1)" by (simp add: update_draws_def)
  ultimately show ?thesis
    unfolding st_def M_def using double_30_below by blast
qed

section \<open>The circular-motion counter\<close>

text \<open>
  Claim C7. On an object whose counter is 0, ten calls of \<^verbatim>\<open>circular_control(5)\<close> return
  the turn 30 on the first and the sixth call and 0 on the others, each time paired with
  \<^verbatim>\<open>target_speed\<close>; the counter reads 1, 2, ..., 10 after the successive calls, and 10 at the
  end. In general a call of \<^verbatim>\<open>circular_control(5)\<close> returns 30 exactly when the counter is a
  multiple of 5 and advances the counter by 1 whatever it returns.
\<close>

theorem circular_control_ten_calls:
  assumes "target_move_iter self = 0"
  shows "circular_calls self 5 10 =
           Inr ([((30, target_speed self), 1), ((0, target_speed self), 2),
                 ((0, target_speed self), 3), ((0, target_speed self), 4),
                 ((0, target_speed self), 5), ((30, target_speed self), 6),
                 ((0, target_speed self), 7), ((0, target_speed self), 8),
                 ((0, target_speed self), 9), ((0, target_speed self), 10)],
                self\<lparr>target_move_iter := 10\<rparr>)
         \<and> (\<forall>m. circular_control m 5 =
                 Inr ((if target_move_iter m mod 5 = 0 then 30 else 0, target_speed m),
                      m\<lparr>target_move_iter := target_move_iter m + 1\<rparr>))"
  using assms by (simp add: numeral_eq_Suc circular_control_def)

text \<open>
  Claim C7, instance: a freshly constructed object with circular movement (counter 0,
  target speed 1).
\<close>

theorem circular_control_ten_calls_witness:
  "target_move_iter (RFState_init (9 / 10) None (Some ''circular'') 50 0 0) = 0
   \<and> circular_calls (RFState_init (9 / 10) None (Some ''circular'') 50 0 0) 5 10 =
       Inr ([((30, 1), 1), ((0, 1), 2), ((0, 1), 3), ((0, 1), 4), ((0, 1), 5),
             ((30, 1), 6), ((0, 1), 7), ((0, 1), 8), ((0, 1), 9), ((0, 1), 10)],
            (RFState_init (9 / 10) None (Some ''circular'') 50 0 0)\<lparr>target_move_iter := 10\<rparr>)"
proof -
  have h: "target_move_iter (RFState_init (9 / 10) None (Some ''circular'') 50 0 0) = 0"
    by (simp add: RFState_init_def)
  have s: "target_speed (RFState_init (9 / 10) None (Some ''circular'') 50 0 0) = 1"
    by (simp add: RFState_init_def)
  show ?thesis
    using h circular_control_ten_calls [OF h] unfolding s by blast
qed

section \<open>The registry\<close>

text \<open>
  Claim C9, as amended. \<^verbatim>\<open>get_state\<close> lower-cases the name before the lookup. It returns
  the class \<^verbatim>\<open>RFState\<close> for \<^verbatim>\<open>'rfstate'\<close> and for every name whose lower-cased form is
  \<^verbatim>\<open>'rfstate'\<close>; for every other name it raises ValueError with the message
  \<^verbatim>\<open>Invalid action method name, <lower-cased name>, entered. Must be in dict_keys(['rfstate'])\<close>,
  which names the lower-cased key and lists the valid keys. It never returns a default.
\<close>

theorem get_state_lookup:
  "get_state ''rfstate'' = Inr RFState_class
   \<and> (lower name = ''rfstate'' \<longrightarrow> get_state name = Inr RFState_class)
   \<and> (lower name \<noteq> ''rfstate'' \<longrightarrow>
        get_state name =
          Inl (ValueError (''Invalid action method name, '' @ lower name
                 @ '', entered. Must be in dict_keys(['' @ [CHR 0x27] @ ''rfstate''
                 @ [CHR 0x27] @ ''])'')))"
proof -
  have "lower ''rfstate'' = ''rfstate''" by code_simp
  then show ?thesis
    by (simp add: get_state_def AVAIL_STATES_def dict_keys_str_def)
qed

text \<open>
  Claim C9, instances: \<^verbatim>\<open>'RFState'\<close> lower-cases to the registered key; \<^verbatim>\<open>'Foo'\<close> does not,
  and the message names \<^verbatim>\<open>foo\<close>.
\<close>

theorem get_state_lookup_witness:
  "lower ''RFState'' = ''rfstate''
   \<and> get_state ''RFState'' = Inr RFState_class
   \<and> lower ''Foo'' \<noteq> ''rfstate''
   \<and> get_state ''Foo'' =
       Inl (ValueError (''Invalid action method name, foo, entered. Must be in dict_keys(['' 
              @ [CHR 0x27] @ ''rfstate'' @ [CHR 0x27] @ ''])''))"
proof -
  have a: "lower ''RFState'' = ''rfstate''" by code_simp
  have b: "lower ''Foo'' = ''foo''" by code_simp
  have c: "lower ''Foo'' \<noteq> ''rfstate''" unfolding b by simp
  show ?thesis
    using a c get_state_lookup [of "''RFState''"] get_state_lookup [of "''Foo''"]
    by (simp add: b)
qed

text \<open>
  Claim C9 as stated fails at the name \<^verbatim>\<open>'RFState'\<close>: it is not a key of the registry, and
  the lookup returns the class instead of raising.
\<close>

theorem get_state_case_counterexample:
  "map_of AVAIL_STATES ''RFState'' = None \<and> get_state ''RFState'' = Inr RFState_class"
proof -
  have a: "lower ''RFState'' = ''rfstate''" by code_simp
  show ?thesis by (simp add: get_state_def AVAIL_STATES_def a)
qed

section \<open>Observation symbols outside the alphabet\<close>

text \<open>
  Claim C5, as amended. For a symbol outside the alphabet, \<^verbatim>\<open>gen_state\<close> of either sensor
  raises (UnboundLocalError) whatever the draws. The likelihood \<^verbatim>\<open>weight\<close> does not raise:
  the binary-detection sensor treats every symbol other than 1 as the symbol 0 and returns
  \<open>1 - p1\<close>, and the quadrant bearing sensor returns \<^verbatim>\<open>None\<close> for every symbol outside
  \<open>{0, 1, 2, 3}\<close>.
\<close>

theorem invalid_symbol_behaviour:
  "(obs \<noteq> 0 \<and> obs \<noteq> 1 \<longrightarrow> Drone_gen_state obs b r c = Inl UnboundLocalError)
   \<and> (obs \<noteq> 0 \<and> obs \<noteq> 1 \<and> obs \<noteq> 2 \<and> obs \<noteq> 3 \<longrightarrow>
        Bearing_gen_state obs b1 b2 pick_second r c = Inl UnboundLocalError)
   \<and> (obs \<noteq> 1 \<longrightarrow> Drone_weight obs xp = 1 - Drone_obs1_prob xp)
   \<and> (obs \<noteq> 0 \<and> obs \<noteq> 1 \<and> obs \<noteq> 2 \<and> obs \<noteq> 3 \<longrightarrow>
        Bearing_weight sensor_range obs xp = None)"
  by (simp add: Drone_gen_state_def Bearing_gen_state_def Drone_weight_def Bearing_weight_def)

text \<open>Claim C5, instance: the symbol 7, outside both alphabets.\<close>

theorem invalid_symbol_behaviour_witness:
  "(7 :: int) \<noteq> 0 \<and> (7 :: int) \<noteq> 1 \<and> (7 :: int) \<noteq> 2 \<and> (7 :: int) \<noteq> 3
   \<and> Drone_gen_state 7 0 50 0 = Inl UnboundLocalError
   \<and> Bearing_gen_state 7 0 0 False 50 0 = Inl UnboundLocalError
   \<and> Drone_weight 7 \<lparr>s_range = 50, s_bearing = 0, s_course = 0, s_speed = 1\<rparr> = 1 / 10
   \<and> Bearing_weight 150 7 \<lparr>s_range = 50, s_bearing = 0, s_course = 0, s_speed = 1\<rparr> = None"
  using invalid_symbol_behaviour
          [where obs = 7 and b = 0 and r = 50 and c = 0 and ?b1.0 = 0 and ?b2.0 = 0
             and pick_second = False and sensor_range = 150
             and xp = "\<lparr>s_range = 50, s_bearing = 0, s_course = 0, s_speed = 1\<rparr>"]
  by (simp add: Drone_obs1_prob_def)

text \<open>
  Claim C5 as stated fails for the likelihood: with the symbol 7 the binary-detection sensor
  returns the probability \<open>0.1\<close> and the quadrant bearing sensor returns \<^verbatim>\<open>None\<close>; neither
  call raises.
\<close>

theorem weight_invalid_symbol_counterexample:
  "Drone_weight 7 \<lparr>s_range = 50, s_bearing = 0, s_course = 0, s_speed = 1\<rparr> = 1 / 10
   \<and> Bearing_weight default_sensor_range 7
        \<lparr>s_range = 50, s_bearing = 0, s_course = 0, s_speed = 1\<rparr> = None"
  by (simp add: Drone_weight_def Drone_obs1_prob_def Bearing_weight_def)

section \<open>The quadrant bearing sensor: which fields the regions read\<close>

text \<open>
  Claim C8. The region-2 function \<^verbatim>\<open>obs2\<close> applies its angular-sector test to the course
  field (index 2) and its range-decay test to the bearing field (index 1), and reads neither
  the range nor the speed field. The region-1 and region-3 functions \<^verbatim>\<open>obs1\<close> and \<^verbatim>\<open>obs3\<close>
  apply the angular test to the bearing field (index 1) and the range test to the range
  field (index 0), and read neither the course nor the speed field.
\<close>

theorem Bearing_obs2_reads_course_and_bearing:
  "Bearing_obs2 sr (st\<lparr>s_range := r, s_speed := v\<rparr>) = Bearing_obs2 sr st
   \<and> Bearing_obs1 sr (st\<lparr>s_course := c, s_speed := v\<rparr>) = Bearing_obs1 sr st
   \<and> Bearing_obs3 sr (st\<lparr>s_course := c, s_speed := v\<rparr>) = Bearing_obs3 sr st
   \<and> Bearing_obs2 sr st =
       (let a = (if s_course st < 0 then s_course st + 360 else s_course st);
            in_sector = ((90 \<le> a \<and> a < 120) \<or> (240 < a \<and> a \<le> 270))
        in if in_sector \<and> s_bearing st < sr / 2 then 1
           else if in_sector \<and> s_bearing st < sr then 2 - 2 * s_bearing st / sr
           else 0.0001)
   \<and> Bearing_obs1 sr st =
       (let a = (if s_bearing st < 0 then s_bearing st + 360 else s_bearing st);
            in_sector = ((60 < a \<and> a < 90) \<or> (270 < a \<and> a < 300))
        in if in_sector \<and> s_range st < sr / 2 then 1
           else if in_sector \<and> s_range st < sr then 2 - 2 * s_range st / sr
           else 0.0001)
   \<and> Bearing_obs3 sr st =
       (let a = (if s_bearing st < 0 then s_bearing st + 360 else s_bearing st);
            in_sector = (120 \<le> a \<and> a \<le> 240)
        in if in_sector \<and> s_range st < sr / 2 then 1
           else if in_sector \<and> s_range st < sr then 2 - 2 * s_range st / sr
           else 0.0001)"
  by (simp add: Bearing_obs1_def Bearing_obs2_def Bearing_obs3_def Let_def)

text \<open>
  Claim C8, instances at sensor range 150. \<^verbatim>\<open>obs2\<close> is 1 at course 90 and bearing 50; it
  drops to the floor when only the course changes (to 0), decays to \<open>2/3\<close> when only the
  bearing changes (to 100), and stays 1 when range and speed change. \<^verbatim>\<open>obs1\<close> and \<^verbatim>\<open>obs3\<close>
  change with the bearing and the range and not with the course.
\<close>

theorem Bearing_obs2_reads_course_and_bearing_witness:
  "Bearing_obs2 150 \<lparr>s_range = 50, s_bearing = 50, s_course = 90, s_speed = 1\<rparr> = 1
   \<and> Bearing_obs2 150 \<lparr>s_range = 50, s_bearing = 50, s_course = 0, s_speed = 1\<rparr> = 1 / 10000
   \<and> Bearing_obs2 150 \<lparr>s_range = 50, s_bearing = 100, s_course = 90, s_speed = 1\<rparr> = 2 / 3
   \<and> Bearing_obs2 150 \<lparr>s_range = 140, s_bearing = 50, s_course = 90, s_speed = 7\<rparr> = 1
   \<and> Bearing_obs1 150 \<lparr>s_range = 50, s_bearing = 75, s_course = 0, s_speed = 1\<rparr> = 1
   \<and> Bearing_obs1 150 \<lparr>s_range = 50, s_bearing = 75, s_course = 90, s_speed = 7\<rparr> = 1
   \<and> Bearing_obs1 150 \<lparr>s_range = 100, s_bearing = 75, s_course = 0, s_speed = 1\<rparr> = 2 / 3
   \<and> Bearing_obs1 150 \<lparr>s_range = 50, s_bearing = 100, s_course = 0, s_speed = 1\<rparr> = 1 / 10000
   \<and> Bearing_obs3 150 \<lparr>s_range = 50, s_bearing = 180, s_course = 0, s_speed = 1\<rparr> = 1
   \<and> Bearing_obs3 150 \<lparr>s_range = 50, s_bearing = 180, s_course = 90, s_speed = 7\<rparr> = 1
   \<and> Bearing_obs3 150 \<lparr>s_range = 100, s_bearing = 180, s_course = 0, s_speed = 1\<rparr> = 2 / 3
   \<and> Bearing_obs3 150 \<lparr>s_range = 50, s_bearing = 100, s_course = 0, s_speed = 1\<rparr> = 1 / 10000"
  using
        Bearing_obs2_reads_course_and_bearing
          [where sr = 150 and r = 0 and v = 0 and c = 0
             and st = "\<lparr>s_range = 50, s_bearing = 50, s_course = 90, s_speed = 1\<rparr>"]
        Bearing_obs2_reads_course_and_bearing
          [where sr = 150 and r = 0 and v = 0 and c = 0
             and st = "\<lparr>s_range = 50, s_bearing = 50, s_course = 0, s_speed = 1\<rparr>"]
        Bearing_obs2_reads_course_and_bearing
          [where sr = 150 and r = 0 and v = 0 and c = 0
             and st = "\<lparr>s_range = 50, s_bearing = 100, s_course = 90, s_speed = 1\<rparr>"]
        Bearing_obs2_reads_course_and_bearing
          [where sr = 150 and r = 0 and v = 0 and c = 0
             and st = "\<lparr>s_range = 140, s_bearing = 50, s_course = 90, s_speed = 7\<rparr>"]
        Bearing_obs2_reads_course_and_bearing
          [where sr = 150 and r = 0 and v = 0 and c = 0
             and st = "\<lparr>s_range = 50, s_bearing = 75, s_course = 0, s_speed = 1\<rparr>"]
        Bearing_obs2_reads_course_and_bearing
          [where sr = 150 and r = 0 and v = 0 and c = 0
             and st = "\<lparr>s_range = 50, s_bearing = 75, s_course = 90, s_speed = 7\<rparr>"]
        Bearing_obs2_reads_course_and_bearing
          [where sr = 150 and r = 0 and v = 0 and c = 0
             and st = "\<lparr>s_range = 100, s_bearing = 75, s_course = 0, s_speed = 1\<rparr>"]
        Bearing_obs2_reads_course_and_bearing
          [where sr = 150 and r = 0 and v = 0 and c = 0
             and st = "\<lparr>s_range = 50, s_bearing = 100, s_course = 0, s_speed = 1\<rparr>"]
        Bearing_obs2_reads_course_and_bearing
          [where sr = 150 and r = 0 and v = 0 and c = 0
             and st = "\<lparr>s_range = 50, s_bearing = 180, s_course = 0, s_speed = 1\<rparr>"]
        Bearing_obs2_reads_course_and_bearing
          [where sr = 150 and r = 0 and v = 0 and c = 0
             and st = "\<lparr>s_range = 50, s_bearing = 180, s_course = 90, s_speed = 7\<rparr>"]
        Bearing_obs2_reads_course_and_bearing
          [where sr = 150 and r = 0 and v = 0 and c = 0
             and st = "\<lparr>s_range = 100, s_bearing = 180, s_course = 0, s_speed = 1\<rparr>"]
  by (simp add: Let_def)

section \<open>Inverse sampling against the forward likelihood\<close>

text \<open>
  What does hold of inverse sampling: every state the binary-detection sensor samples has a
  likelihood above the floor, and so has every state the quadrant bearing sensor (default
  range 150) samples for the symbols 0 and 3.
\<close>

lemma Drone_gen_state_consistent:
  assumes d: "Drone_draws obs b r c" and g: "Drone_gen_state obs b r c = Inr st"
  shows "Drone_weight obs st > 0.0001"
proof -
  from g have o: "obs = 1 \<or> obs = 0"
    by (simp add: Drone_gen_state_def split: if_splits)
  from g o have st: "s_bearing st = of_int (if b < 0 then b + 360 else b)"
    by (auto simp: Drone_gen_state_def Let_def)
  have p: "Drone_obs1_prob st = 0.9 \<or> Drone_obs1_prob st = 0.1 \<or> Drone_obs1_prob st = 0.5"
    by (simp add: Drone_obs1_prob_def Let_def)
  show ?thesis
  proof (cases "obs = 1")
    case True
    then show ?thesis using p by (auto simp: Drone_weight_def)
  next
    case False
    with o have z: "obs = 0" by simp
    with d have b: "120 \<le> b" "b \<le> 240" by (simp_all add: Drone_draws_def)
    then have "s_bearing st = of_int b" using st by simp
    moreover have "(120 :: real) \<le> of_int b" "of_int b \<le> (240 :: real)" using b by linarith+
    ultimately have "Drone_obs1_prob st = 0.1"
      by (simp add: Drone_obs1_prob_def Let_def)
    then show ?thesis using z by (simp add: Drone_weight_def)
  qed
qed

lemma Bearing_gen_state_consistent_0:
  assumes d: "Bearing_draws 0 b1 b2 r c"
    and g: "Bearing_gen_state 0 b1 b2 pick_second r c = Inr st"
  shows "Bearing_weight default_sensor_range 0 st = Some 1"
proof -
  from d have b: "- 60 \<le> b1" "b1 \<le> 60" by (simp_all add: Bearing_draws_def)
  from g have st: "s_bearing st = of_int (if b1 < 0 then b1 + 360 else b1)"
    by (auto simp: Bearing_gen_state_def Let_def)
  have "(0 \<le> s_bearing st \<and> s_bearing st \<le> 60) \<or> 300 \<le> s_bearing st"
  proof (cases "b1 < 0")
    case True
    then have "s_bearing st = of_int (b1 + 360)" using st by simp
    moreover have "(300 :: real) \<le> of_int (b1 + 360)" using b by linarith
    ultimately show ?thesis by simp
  next
    case False
    then have "s_bearing st = of_int b1" using st by simp
    moreover have "(0 :: real) \<le> of_int b1" "of_int b1 \<le> (60 :: real)" using b False by linarith+
    ultimately show ?thesis by simp
  qed
  then have "Bearing_obs0 default_sensor_range st = 1"
    by (auto simp: Bearing_obs0_def Let_def)
  then show ?thesis by (simp add: Bearing_weight_def)
qed

lemma Bearing_gen_state_consistent_3:
  assumes d: "Bearing_draws 3 b1 b2 r c"
    and g: "Bearing_gen_state 3 b1 b2 pick_second r c = Inr st"
  shows "\<exists>w. Bearing_weight default_sensor_range 3 st = Some w \<and> w > 0.0001"
proof -
  from d have b: "120 \<le> b1" "b1 \<le> 240" "25 \<le> r" "r \<le> 100"
    by (simp_all add: Bearing_draws_def)
  from g b have st: "s_bearing st = of_int b1" "s_range st = of_int r"
    by (auto simp: Bearing_gen_state_def Let_def)
  have bb: "(120 :: real) \<le> of_int b1" "of_int b1 \<le> (240 :: real)" using b by linarith+
  have rr: "(of_int r :: real) \<le> 100" using b by linarith
  have "Bearing_obs3 default_sensor_range st =
          (if s_range st < 75 then 1 else 2 - 2 * s_range st / 150)"
    using bb rr by (simp add: Bearing_obs3_def default_sensor_range_def Let_def st)
  moreover have "(if s_range st < 75 then 1 else 2 - 2 * s_range st / 150) > (0.0001 :: real)"
    using rr by (simp add: st)
  ultimately have "Bearing_obs3 default_sensor_range st > 0.0001" by simp
  then show ?thesis by (simp add: Bearing_weight_def)
qed

text \<open>
  Claim C2, evaluated where it fails. With the default sensor range 150, \<^verbatim>\<open>gen_state(2)\<close>
  with the draws bearing 100, range 50, course index 0 returns \<open>(50, 100, 0, 1)\<close>, whose
  likelihood for the symbol 2 is the floor \<open>0.0001\<close>: \<^verbatim>\<open>obs2\<close> tests the course 0 as the angle.
  And \<^verbatim>\<open>gen_state(1)\<close> with the boundary draw bearing 60 returns \<open>(50, 60, 0, 1)\<close>, whose
  likelihood for the symbol 1 is the floor as well: \<^verbatim>\<open>obs1\<close> tests \<open>60 < bearing\<close>.
\<close>

theorem Bearing_gen_state_at_floor:
  "Bearing_draws 2 100 250 50 0
   \<and> Bearing_gen_state 2 100 250 False 50 0
       = Inr \<lparr>s_range = 50, s_bearing = 100, s_course = 0, s_speed = 1\<rparr>
   \<and> Bearing_weight default_sensor_range 2
        \<lparr>s_range = 50, s_bearing = 100, s_course = 0, s_speed = 1\<rparr> = Some (1 / 10000)
   \<and> Bearing_draws 1 60 270 50 0
   \<and> Bearing_gen_state 1 60 270 False 50 0
       = Inr \<lparr>s_range = 50, s_bearing = 60, s_course = 0, s_speed = 1\<rparr>
   \<and> Bearing_weight default_sensor_range 1
        \<lparr>s_range = 50, s_bearing = 60, s_course = 0, s_speed = 1\<rparr> = Some (1 / 10000)"
  by (simp add: Bearing_draws_def Bearing_gen_state_def Bearing_weight_def Bearing_obs1_def
                Bearing_obs2_def default_sensor_range_def)

end
